theory Spec2Isabelle
  imports Main "HOL-Library.Word"
begin

section \<open>The hosts package: lookups over a polled hosts file\<close>

text \<open>
  A shallow embedding of \<^verbatim>\<open>hostsfile/hostsfile.go\<close>. The mutex \<^verbatim>\<open>hostMutex\<close> is
  left out: every function below is the sequential behaviour of one call. Effects
  (file reads, parser calls, log lines, the start of the polling goroutine) are
  returned as a list of events next to the result.
\<close>

subsection \<open>Data\<close>

text \<open>\<^verbatim>\<open>net.IP\<close> is a byte slice.\<close>

type_synonym IP = "8 word list"

text \<open>
  \<^verbatim>\<open>time.Time\<close>, compared with \<^verbatim>\<open>Equal\<close> only: an instant, counted from the zero
  value of the type.
\<close>

type_synonym Time = int

definition zero_Time :: Time where
  "zero_Time = 0"

definition Equal :: "Time \<Rightarrow> Time \<Rightarrow> bool" where
  "Equal t u = (t = u)"

text \<open>An \<^verbatim>\<open>error\<close> value of the operating system or of a library.\<close>

datatype error = Error string

text \<open>The one way a call of this file can panic: reading through a nil pointer.\<close>

datatype panic = NilPointerDereference

record Config =
  Poll :: int
  Verbose :: bool

text \<open>
  Modelled from the spec: the types \<^verbatim>\<open>hostname\<close> and \<^verbatim>\<open>hostlist\<close> are declared
  outside \<^verbatim>\<open>hostsfile.go\<close>. The file reads the fields \<^verbatim>\<open>domain\<close> and \<^verbatim>\<open>ip\<close> of a
  hostname and ranges over a hostlist; the specification makes the Table an ordered
  sequence of entries.
\<close>

record hostname =
  domain :: string
  ip :: IP

type_synonym hostlist = "hostname list"

text \<open>The anonymous struct \<^verbatim>\<open>Hostsfile.file\<close> (the field is \<open>file'\<close> below); \<^verbatim>\<open>size\<close> is an \<^verbatim>\<open>int64\<close>.\<close>

record file_info =
  file_size :: "64 word"
  file_path :: string
  file_mtime :: Time

text \<open>
  \<^verbatim>\<open>Hostsfile\<close>: \<^verbatim>\<open>config\<close> and \<^verbatim>\<open>hosts\<close> are pointers, \<open>None\<close> is nil.
\<close>

record Hostsfile =
  config :: "Config option"
  hosts :: "hostlist option"
  file' :: file_info

subsection \<open>Library calls\<close>

text \<open>\<^verbatim>\<open>strings.HasSuffix\<close> and \<^verbatim>\<open>strings.TrimSuffix\<close> of the Go standard library.\<close>

definition HasSuffix :: "string \<Rightarrow> string \<Rightarrow> bool" where
  "HasSuffix s suffix =
     (length suffix \<le> length s \<and> drop (length s - length suffix) s = suffix)"

definition TrimSuffix :: "string \<Rightarrow> string \<Rightarrow> string" where
  "TrimSuffix s suffix =
     (if HasSuffix s suffix then take (length s - length suffix) s else s)"

text \<open>
  Modelled from the spec: stored domains are lower-cased by the parser, which is not
  in \<^verbatim>\<open>hostsfile.go\<close>. \<open>ToLower\<close> is \<^verbatim>\<open>strings.ToLower\<close> on ASCII text; no function
  of \<^verbatim>\<open>hostsfile.go\<close> calls it.
\<close>

definition lower :: "char \<Rightarrow> char" where
  "lower c =
     (if 65 \<le> (of_char c :: nat) \<and> (of_char c :: nat) \<le> 90
      then char_of (of_char c + 32 :: nat) else c)"

definition ToLower :: "string \<Rightarrow> string" where
  "ToLower s = map lower s"

text \<open>
  The calls into \<^verbatim>\<open>net\<close> and \<^verbatim>\<open>github.com/miekg/dns\<close> that \<^verbatim>\<open>FindReverse\<close> makes are
  parameters: \<^verbatim>\<open>IP.String\<close>, \<^verbatim>\<open>dns.ReverseAddr\<close> (a name and an error) and \<^verbatim>\<open>dns.Fqdn\<close>.
\<close>

record dns_library =
  IP_String :: "IP \<Rightarrow> string"
  ReverseAddr :: "string \<Rightarrow> string \<times> error option"
  Fqdn :: "string \<Rightarrow> string"

text \<open>The name \<open>r\<close> that the loop of \<^verbatim>\<open>FindReverse\<close> computes for an entry.\<close>

definition reverse_name :: "dns_library \<Rightarrow> hostname \<Rightarrow> string" where
  "reverse_name lib hn = fst (ReverseAddr lib (IP_String lib (ip hn)))"

subsection \<open>Lookups\<close>

text \<open>
  The loop of \<^verbatim>\<open>FindHosts\<close>: \<open>addrs\<close> is the named result, appended to at every entry
  whose domain is the name.
\<close>

fun FindHosts_loop :: "hostlist \<Rightarrow> string \<Rightarrow> IP list \<Rightarrow> IP list" where
  "FindHosts_loop [] name addrs = addrs"
| "FindHosts_loop (hn # rest) name addrs =
     FindHosts_loop rest name (if domain hn = name then addrs @ [ip hn] else addrs)"

definition FindHosts :: "Hostsfile \<Rightarrow> string \<Rightarrow> panic + (IP list \<times> error option)" where
  "FindHosts h name =
     (let name = TrimSuffix name ''.'' in
      case hosts h of
        None \<Rightarrow> Inl NilPointerDereference
      | Some tbl \<Rightarrow> Inr (FindHosts_loop tbl name [], None))"

text \<open>
  The loop of \<^verbatim>\<open>FindReverse\<close>: \<open>host\<close> is the named result, the empty string until
  the first entry whose reverse name is the query; the \<^verbatim>\<open>break\<close> ends the scan there.
  The error of \<^verbatim>\<open>dns.ReverseAddr\<close> is dropped.
\<close>

fun FindReverse_loop :: "dns_library \<Rightarrow> hostlist \<Rightarrow> string \<Rightarrow> string \<Rightarrow> string" where
  "FindReverse_loop lib [] name host = host"
| "FindReverse_loop lib (hn # rest) name host =
     (let (r, _) = ReverseAddr lib (IP_String lib (ip hn)) in
      if name = r then Fqdn lib (domain hn)
      else FindReverse_loop lib rest name host)"

definition FindReverse ::
  "dns_library \<Rightarrow> Hostsfile \<Rightarrow> string \<Rightarrow> panic + (string \<times> error option)" where
  "FindReverse lib h name =
     (case hosts h of
        None \<Rightarrow> Inl NilPointerDereference
      | Some tbl \<Rightarrow> Inr (FindReverse_loop lib tbl name [], None))"

subsection \<open>Loading and construction\<close>

text \<open>
  What a call leaves behind besides its result: the calls of \<^verbatim>\<open>ioutil.ReadFile\<close> and
  of the parser \<^verbatim>\<open>newHostlist\<close>, the \<^verbatim>\<open>go\<close> statement, and the lines given to
  \<^verbatim>\<open>log.Printf\<close> (by their arguments, before formatting).
\<close>

datatype event =
    CallReadFile string
  | CallNewHostlist string
  | GoMonitorHostEntries int
  | LogFoundEntries string
  | LogEntry string IP
  | LogErrorStating error
  | LogErrorOpening error
  | LogReloaded

text \<open>
  The file system as one call sees it: \<^verbatim>\<open>ioutil.ReadFile\<close> gives the bytes of a file or
  an error; \<^verbatim>\<open>hostsFileMetadata\<close>, a function of the package that is not in
  \<^verbatim>\<open>hostsfile.go\<close>, gives the modification time and the size of a file or an error.
\<close>

record filesystem =
  ReadFile :: "string \<Rightarrow> error + string"
  hostsFileMetadata :: "string \<Rightarrow> error + (Time \<times> 64 word)"

text \<open>
  \<^verbatim>\<open>loadHostEntries\<close>. The parser \<^verbatim>\<open>newHostlist\<close> is not in \<^verbatim>\<open>hostsfile.go\<close> either and
  is the parameter \<open>newHostlist\<close>. The result is the returned error (\<open>None\<close> is nil),
  the receiver after the call and the events.
\<close>

definition loadHostEntries ::
  "(string \<Rightarrow> hostlist) \<Rightarrow> filesystem \<Rightarrow> Hostsfile \<Rightarrow> (error option \<times> Hostsfile) \<times> event list" where
  "loadHostEntries newHostlist fs h =
     (case ReadFile fs (file_path (file' h)) of
        Inl err \<Rightarrow> ((Some err, h), [CallReadFile (file_path (file' h))])
      | Inr data \<Rightarrow>
          ((None, h\<lparr>hosts := Some (newHostlist data)\<rparr>),
           [CallReadFile (file_path (file' h)), CallNewHostlist data]))"

text \<open>What \<^verbatim>\<open>NewHostsfile\<close> gives back when it does not return an instance.\<close>

datatype failure = Returned error | Panicked panic

text \<open>
  \<^verbatim>\<open>NewHostsfile\<close>. The struct starts with every field but \<^verbatim>\<open>config\<close> at its zero
  value; \<^verbatim>\<open>new(hostlist)\<close> is the empty list.
\<close>

definition NewHostsfile ::
  "(string \<Rightarrow> hostlist) \<Rightarrow> filesystem \<Rightarrow> string \<Rightarrow> Config option
     \<Rightarrow> (failure + Hostsfile) \<times> event list" where
  "NewHostsfile newHostlist fs pth cfg =
     (let h = \<lparr>config = cfg, hosts = None,
                file' = \<lparr>file_size = 0, file_path = [], file_mtime = zero_Time\<rparr>\<rparr> in
      if pth = [] then (Inr (h\<lparr>hosts := Some []\<rparr>), [])
      else
        let h = h\<lparr>file' := (file' h)\<lparr>file_path := pth\<rparr>\<rparr> in
        case loadHostEntries newHostlist fs h of
          ((Some err, _), evs) \<Rightarrow> (Inl (Returned err), evs)
        | ((None, h), evs) \<Rightarrow>
            (case config h of
               None \<Rightarrow> (Inl (Panicked NilPointerDereference), evs)
             | Some c \<Rightarrow>
                 let evs = evs @ (if 0 < Poll c then [GoMonitorHostEntries (Poll c)] else []) in
                 if Verbose c then
                   (case hosts h of
                      None \<Rightarrow>
                        (Inl (Panicked NilPointerDereference),
                         evs @ [LogFoundEntries (file_path (file' h))])
                    | Some tbl \<Rightarrow>
                        (Inr h,
                         evs @ LogFoundEntries (file_path (file' h))
                           # map (\<lambda>hn. LogEntry (domain hn) (ip hn)) tbl))
                 else (Inr h, evs)))"

subsection \<open>The poll loop\<close>

text \<open>
  One iteration of the loop of \<^verbatim>\<open>monitorHostEntries\<close>, on the state it works on: the
  receiver \<open>h\<close> and the local copy \<open>hf\<close> of \<^verbatim>\<open>h.file\<close>. Both \<^verbatim>\<open>continue\<close> statements
  leave the state as it is.
\<close>

definition monitor_tick ::
  "(string \<Rightarrow> hostlist) \<Rightarrow> filesystem \<Rightarrow> Hostsfile \<times> file_info
     \<Rightarrow> (panic + Hostsfile \<times> file_info) \<times> event list" where
  "monitor_tick newHostlist fs st =
     (let (h, hf) = st in
      case hostsFileMetadata fs (file_path hf) of
        Inl err \<Rightarrow> (Inr (h, hf), [LogErrorStating err])
      | Inr (mtime, size') \<Rightarrow>
          if Equal (file_mtime hf) mtime \<and> file_size hf = size' then (Inr (h, hf), [])
          else
            let ((res, h), evs) = loadHostEntries newHostlist fs h;
                evs = evs @ (case res of Some err \<Rightarrow> [LogErrorOpening err] | None \<Rightarrow> [])
            in
            (case config h of
               None \<Rightarrow> (Inl NilPointerDereference, evs)
             | Some c \<Rightarrow>
                 let evs = evs @ (if Verbose c then [LogReloaded] else []);
                     h = h\<lparr>file' := (file' h)\<lparr>file_mtime := mtime, file_size := size'\<rparr>\<rparr>;
                     hf = file' h
                 in (Inr (h, hf), evs)))"

text \<open>
  The loop over the ticks that the timer delivers, each with the file system as it is
  then. The loop of the source has no exit; a panic ends it.
\<close>

fun monitor_loop ::
  "(string \<Rightarrow> hostlist) \<Rightarrow> filesystem list \<Rightarrow> Hostsfile \<times> file_info
     \<Rightarrow> (panic + Hostsfile \<times> file_info) \<times> event list" where
  "monitor_loop newHostlist [] st = (Inr st, [])"
| "monitor_loop newHostlist (fs # ticks) st =
     (case monitor_tick newHostlist fs st of
        (Inl p, evs) \<Rightarrow> (Inl p, evs)
      | (Inr st', evs) \<Rightarrow>
          (let (r, evs') = monitor_loop newHostlist ticks st' in (r, evs @ evs')))"

text \<open>
  \<^verbatim>\<open>monitorHostEntries\<close>: the copy of \<^verbatim>\<open>h.file\<close>, the return on an empty path, the loop.
  \<open>poll\<close> sets the period of the timer only.
\<close>

definition monitorHostEntries ::
  "(string \<Rightarrow> hostlist) \<Rightarrow> filesystem list \<Rightarrow> Hostsfile \<Rightarrow> int
     \<Rightarrow> (panic + Hostsfile \<times> file_info) \<times> event list" where
  "monitorHostEntries newHostlist ticks h poll =
     (let hf = file' h in
      if file_path hf = [] then (Inr (h, hf), [])
      else monitor_loop newHostlist ticks (h, hf))"

subsection \<open>Instances for closed examples\<close>

text \<open>
  The theorems below hold for every library, every parser and every file system. The
  closed examples need one of each.

  The library, restricted to IPv4: \<^verbatim>\<open>IP.String\<close> on a 4-byte address is the dotted
  quad, and \<^verbatim>\<open>dns.ReverseAddr\<close> on the text of a dotted quad (decimal fields up to 255,
  leading zeros accepted as by the Go releases of the time) is the reversed quad
  under \<^verbatim>\<open>in-addr.arpa.\<close>; every other text is reported as unrecognised, also the
  IPv6 texts that the library reverses under \<^verbatim>\<open>ip6.arpa.\<close>. \<^verbatim>\<open>dns.Fqdn\<close> appends a
  dot to a name that does not end in one (the escape rule of later releases is left
  out).
\<close>

definition digit :: "nat \<Rightarrow> char" where
  "digit n = ''0123456789'' ! (n mod 10)"

fun Itoa :: "nat \<Rightarrow> string" where
  "Itoa n = (if n < 10 then [digit n] else Itoa (n div 10) @ [digit n])"

declare Itoa.simps [simp del]

definition ipv4_String :: "IP \<Rightarrow> string" where
  "ipv4_String p =
     (case p of
        [] \<Rightarrow> ''<nil>''
      | [a, b, c, d] \<Rightarrow>
          Itoa (unat a) @ ''.'' @ Itoa (unat b) @ ''.'' @ Itoa (unat c) @ ''.'' @ Itoa (unat d)
      | _ \<Rightarrow> ''?'')"

fun split_dots :: "string \<Rightarrow> string list" where
  "split_dots [] = [[]]"
| "split_dots (c # cs) =
     (if c = CHR ''.'' then [] # split_dots cs
      else (case split_dots cs of [] \<Rightarrow> [[c]] | f # fs \<Rightarrow> (c # f) # fs))"

definition is_digit :: "char \<Rightarrow> bool" where
  "is_digit c = (48 \<le> (of_char c :: nat) \<and> (of_char c :: nat) \<le> 57)"

definition dtoi :: "string \<Rightarrow> nat option" where
  "dtoi s =
     (if s = [] \<or> \<not> list_all is_digit s then None
      else Some (foldl (\<lambda>n c. 10 * n + (of_char c - 48)) 0 s))"

definition octet :: "string \<Rightarrow> 8 word option" where
  "octet s = (case dtoi s of None \<Rightarrow> None | Some n \<Rightarrow> if 255 < n then None else Some (of_nat n))"

definition parseIPv4 :: "string \<Rightarrow> IP option" where
  "parseIPv4 s =
     (case map octet (split_dots s) of
        [Some a, Some b, Some c, Some d] \<Rightarrow> Some [a, b, c, d]
      | _ \<Rightarrow> None)"

definition ipv4_ReverseAddr :: "string \<Rightarrow> string \<times> error option" where
  "ipv4_ReverseAddr addr =
     (case parseIPv4 addr of
        None \<Rightarrow> ([], Some (Error (''unrecognized address: '' @ addr)))
      | Some p \<Rightarrow> (ipv4_String (rev p) @ ''.in-addr.arpa.'', None))"

definition IsFqdn :: "string \<Rightarrow> bool" where
  "IsFqdn s = (s \<noteq> [] \<and> last s = CHR ''.'')"

definition dns_Fqdn :: "string \<Rightarrow> string" where
  "dns_Fqdn s = (if IsFqdn s then s else s @ ''.'')"

definition ipv4_library :: dns_library where
  "ipv4_library =
     \<lparr>IP_String = ipv4_String, ReverseAddr = ipv4_ReverseAddr, Fqdn = dns_Fqdn\<rparr>"

text \<open>
  The example of the specification: a file of two lines and the table it stands for.
\<close>

definition example_data :: string where
  "example_data =
     ''127.0.0.1 localhost'' @ [CHR 0x0A] @
     ''10.0.0.5 foo.example.com bar.example.com'' @ [CHR 0x0A]"

definition example_table :: hostlist where
  "example_table =
     [\<lparr>domain = ''localhost'', ip = [127, 0, 0, 1]\<rparr>,
      \<lparr>domain = ''foo.example.com'', ip = [10, 0, 0, 5]\<rparr>,
      \<lparr>domain = ''bar.example.com'', ip = [10, 0, 0, 5]\<rparr>]"

text \<open>
  Modelled from the spec: the parser \<^verbatim>\<open>newHostlist\<close> is not in \<^verbatim>\<open>hostsfile.go\<close>. This
  instance has the table of the specification's example on the example file and the
  empty table on any other content; only the closed examples use it.
\<close>

definition example_newHostlist :: "string \<Rightarrow> hostlist" where
  "example_newHostlist data = (if data = example_data then example_table else [])"

text \<open>
  Four file systems: the example file at \<^verbatim>\<open>/etc/hosts\<close>; the same file after a
  change of its modification time, unreadable; that file readable again, its
  modification time and size as they were while it was unreadable; and no file at all.
\<close>

definition example_fs :: filesystem where
  "example_fs =
     \<lparr>ReadFile = (\<lambda>p. if p = ''/etc/hosts'' then Inr example_data
                        else Inl (Error ''no such file or directory'')),
      hostsFileMetadata = (\<lambda>p. if p = ''/etc/hosts'' then Inr (63000000000, 61)
                        else Inl (Error ''no such file or directory''))\<rparr>"

definition unreadable_fs :: filesystem where
  "unreadable_fs =
     \<lparr>ReadFile = (\<lambda>p. Inl (Error ''permission denied'')),
      hostsFileMetadata = (\<lambda>p. if p = ''/etc/hosts'' then Inr (63000000777, 61)
                        else Inl (Error ''no such file or directory''))\<rparr>"

definition readable_again_fs :: filesystem where
  "readable_again_fs = unreadable_fs\<lparr>ReadFile := ReadFile example_fs\<rparr>"

definition missing_fs :: filesystem where
  "missing_fs =
     \<lparr>ReadFile = (\<lambda>p. Inl (Error ''no such file or directory'')),
      hostsFileMetadata = (\<lambda>p. Inl (Error ''no such file or directory''))\<rparr>"

definition example_config :: Config where
  "example_config = \<lparr>Poll = 5, Verbose = False\<rparr>"

text \<open>An instance holding the example table, as \<^verbatim>\<open>NewHostsfile\<close> leaves it.\<close>

definition example_hostsfile :: Hostsfile where
  "example_hostsfile =
     \<lparr>config = Some example_config, hosts = Some example_table,
      file' = \<lparr>file_size = 0, file_path = ''/etc/hosts'', file_mtime = zero_Time\<rparr>\<rparr>"

text \<open>
  The instance after a poll over the example file, logging enabled: the baseline is
  the modification time and size of the file. \<open>moved_baseline\<close> is the modification
  time and size that \<open>unreadable_fs\<close> reports.
\<close>

definition polled_hostsfile :: Hostsfile where
  "polled_hostsfile =
     \<lparr>config = Some \<lparr>Poll = 5, Verbose = True\<rparr>, hosts = Some example_table,
      file' = \<lparr>file_size = 61, file_path = ''/etc/hosts'', file_mtime = 63000000000\<rparr>\<rparr>"

definition moved_baseline :: file_info where
  "moved_baseline = \<lparr>file_size = 61, file_path = ''/etc/hosts'', file_mtime = 63000000777\<rparr>"

text \<open>An instance whose table names one domain on two lines, another line between.\<close>

definition repeated_hostsfile :: Hostsfile where
  "repeated_hostsfile =
     \<lparr>config = Some example_config,
      hosts = Some [\<lparr>domain = ''db.local'', ip = [192, 168, 0, 1]\<rparr>,
                    \<lparr>domain = ''web.local'', ip = [192, 168, 0, 2]\<rparr>,
                    \<lparr>domain = ''db.local'', ip = [192, 168, 0, 3]\<rparr>],
      file' = \<lparr>file_size = 0, file_path = ''/etc/hosts'', file_mtime = zero_Time\<rparr>\<rparr>"

section \<open>Properties of the lookups\<close>

subsection \<open>The loops as list functions\<close>

lemma FindHosts_loop_filter:
  "FindHosts_loop tbl name addrs = addrs @ map ip (filter (\<lambda>e. domain e = name) tbl)"
  by (induction tbl arbitrary: addrs) simp_all

lemma TrimSuffix_dot_appended: "TrimSuffix (q @ ''.'') ''.'' = q"
  by (simp add: TrimSuffix_def HasSuffix_def)

lemma TrimSuffix_no_dot: "\<not> HasSuffix q ''.'' \<Longrightarrow> TrimSuffix q ''.'' = q"
  by (simp add: TrimSuffix_def)

lemma HasSuffix_dot: "HasSuffix s ''.'' = (s \<noteq> [] \<and> last s = CHR ''.'')"
proof (cases s rule: rev_cases)
  case Nil
  then show ?thesis by (simp add: HasSuffix_def)
next
  case (snoc ys y)
  then show ?thesis by (simp add: HasSuffix_def)
qed

lemma TrimSuffix_dot:
  "TrimSuffix s ''.'' = (if s \<noteq> [] \<and> last s = CHR ''.'' then butlast s else s)"
  by (simp add: TrimSuffix_def HasSuffix_dot butlast_conv_take)

lemma FindHosts_installed:
  "hosts h = Some tbl \<Longrightarrow>
   FindHosts h name = Inr (map ip (filter (\<lambda>e. domain e = TrimSuffix name ''.'') tbl), None)"
  by (simp add: FindHosts_def FindHosts_loop_filter)

lemma FindReverse_loop_find:
  "FindReverse_loop lib tbl name host =
     (case find (\<lambda>e. reverse_name lib e = name) tbl of
        None \<Rightarrow> host | Some e \<Rightarrow> Fqdn lib (domain e))"
  by (induction tbl) (auto simp: reverse_name_def split: prod.splits)

lemma find_first_match:
  "\<forall>x\<in>set pre. \<not> P x \<Longrightarrow> P e \<Longrightarrow> find P (pre @ e # post) = Some e"
  by (induction pre) simp_all

lemma find_no_match: "\<forall>x\<in>set xs. \<not> P x \<Longrightarrow> find P xs = None"
  by (induction xs) simp_all

subsection \<open>Forward lookup\<close>

text \<open>
  Claim C4. On an instance with an installed table, \<^verbatim>\<open>FindHosts\<close> strips one trailing
  separator from the query and nothing else: a query that ends in a separator loses
  that last byte, any other query (the empty one included) is left as it is. It
  returns the addresses of exactly the entries whose stored domain equals the
  normalised query, in table order: for a query without a trailing separator the
  entries whose domain is the query itself, for a query \<open>q\<close> followed by a separator
  the entries whose domain is \<open>q\<close>. With no such entry the result is the empty
  sequence; the returned error is always nil.
\<close>

theorem FindHosts_collects_matches:
  assumes "hosts h = Some tbl"
  shows "TrimSuffix (q @ ''.'') ''.'' = q
       \<and> TrimSuffix name ''.'' =
           (if name \<noteq> [] \<and> last name = CHR ''.'' then butlast name else name)
       \<and> FindHosts h name =
           Inr (map ip (filter (\<lambda>e. domain e = TrimSuffix name ''.'') tbl), None)
       \<and> (name = [] \<or> last name \<noteq> CHR ''.'' \<longrightarrow>
            FindHosts h name = Inr (map ip (filter (\<lambda>e. domain e = name) tbl), None))
       \<and> FindHosts h (q @ ''.'') = Inr (map ip (filter (\<lambda>e. domain e = q) tbl), None)
       \<and> ((\<forall>e\<in>set tbl. domain e \<noteq> TrimSuffix name ''.'') \<longrightarrow>
            FindHosts h name = Inr ([], None))"
proof -
  have strip: "TrimSuffix (q @ ''.'') ''.'' = q"
    by (rule TrimSuffix_dot_appended)
  have norm: "TrimSuffix name ''.'' =
      (if name \<noteq> [] \<and> last name = CHR ''.'' then butlast name else name)"
    by (rule TrimSuffix_dot)
  have all: "FindHosts h name =
      Inr (map ip (filter (\<lambda>e. domain e = TrimSuffix name ''.'') tbl), None)"
    using assms by (rule FindHosts_installed)
  have plain: "name = [] \<or> last name \<noteq> CHR ''.'' \<longrightarrow>
      FindHosts h name = Inr (map ip (filter (\<lambda>e. domain e = name) tbl), None)"
  proof
    assume "name = [] \<or> last name \<noteq> CHR ''.''"
    with norm have "TrimSuffix name ''.'' = name" by auto
    with all show "FindHosts h name = Inr (map ip (filter (\<lambda>e. domain e = name) tbl), None)"
      by simp
  qed
  have dotted: "FindHosts h (q @ ''.'') = Inr (map ip (filter (\<lambda>e. domain e = q) tbl), None)"
    using FindHosts_installed [OF assms, of "q @ ''.''"] by (simp add: strip)
  have none: "(\<forall>e\<in>set tbl. domain e \<noteq> TrimSuffix name ''.'') \<longrightarrow>
      FindHosts h name = Inr ([], None)"
  proof
    assume "\<forall>e\<in>set tbl. domain e \<noteq> TrimSuffix name ''.''"
    then have "filter (\<lambda>e. domain e = TrimSuffix name ''.'') tbl = []"
      by (simp add: filter_empty_conv)
    with all show "FindHosts h name = Inr ([], None)" by simp
  qed
  from strip norm all plain dotted none show ?thesis by blast
qed

text \<open>
  The example table, queried for one name without and with a separator, with two
  separators, and for a name that matches nothing; and a table naming one domain on
  two lines, whose addresses come back in table order.
\<close>

theorem FindHosts_collects_matches_witness:
  "hosts example_hostsfile = Some example_table
   \<and> FindHosts example_hostsfile ''foo.example.com'' = Inr ([[10, 0, 0, 5]], None)
   \<and> FindHosts example_hostsfile ''foo.example.com.'' = Inr ([[10, 0, 0, 5]], None)
   \<and> FindHosts example_hostsfile ''foo.example.com..'' = Inr ([], None)
   \<and> FindHosts example_hostsfile ''nowhere'' = Inr ([], None)
   \<and> FindHosts repeated_hostsfile ''db.local''
       = Inr ([[192, 168, 0, 1], [192, 168, 0, 3]], None)
   \<and> FindHosts repeated_hostsfile ''db.local.''
       = Inr ([[192, 168, 0, 1], [192, 168, 0, 3]], None)"
proof -
  have h: "hosts example_hostsfile = Some example_table"
    by (simp add: example_hostsfile_def)
  have r: "hosts repeated_hostsfile =
      Some [\<lparr>domain = ''db.local'', ip = [192, 168, 0, 1]\<rparr>,
            \<lparr>domain = ''web.local'', ip = [192, 168, 0, 2]\<rparr>,
            \<lparr>domain = ''db.local'', ip = [192, 168, 0, 3]\<rparr>]"
    by (simp add: repeated_hostsfile_def)
  note ex = FindHosts_collects_matches [OF h]
  note rp = FindHosts_collects_matches [OF r]
  have plain: "FindHosts example_hostsfile ''foo.example.com'' = Inr ([[10, 0, 0, 5]], None)"
    using ex [of "[]" "''foo.example.com''"] by (simp add: example_table_def)
  have dotted: "FindHosts example_hostsfile ''foo.example.com.'' = Inr ([[10, 0, 0, 5]], None)"
    using ex [of "''foo.example.com''" "[]"] by (simp add: example_table_def)
  have twice: "FindHosts example_hostsfile ''foo.example.com..'' = Inr ([], None)"
    using ex [of "''foo.example.com.''" "[]"] by (simp add: example_table_def)
  have miss: "FindHosts example_hostsfile ''nowhere'' = Inr ([], None)"
    using ex [of "[]" "''nowhere''"] by (simp add: example_table_def)
  have both: "FindHosts repeated_hostsfile ''db.local''
      = Inr ([[192, 168, 0, 1], [192, 168, 0, 3]], None)"
    using rp [of "[]" "''db.local''"] by simp
  have both_dotted: "FindHosts repeated_hostsfile ''db.local.''
      = Inr ([[192, 168, 0, 1], [192, 168, 0, 3]], None)"
    using rp [of "''db.local''" "[]"] by simp
  from h plain dotted twice miss both both_dotted show ?thesis by blast
qed

text \<open>
  Claim C1 as stated asks for a lookup that ignores the letter case of the query. The
  comparison of \<^verbatim>\<open>FindHosts\<close> is exact: on the example table the upper-case query
  with a separator and the lower-case query give different results.
\<close>

theorem FindHosts_upper_case_counterexample:
  "FindHosts example_hostsfile ''FOO.EXAMPLE.COM.'' \<noteq> FindHosts example_hostsfile ''foo.example.com''"
  by (simp add: FindHosts_def example_hostsfile_def example_table_def TrimSuffix_def HasSuffix_def)

text \<open>
  Claim C1, amended. \<^verbatim>\<open>FindHosts\<close> is insensitive to one trailing separator and
  sensitive to letter case: for a query \<open>q\<close> that does not end in a separator, the
  lookups of \<open>q\<close> and of \<open>q\<close> followed by a separator both return the addresses of
  the entries whose stored domain is \<open>q\<close> byte for byte; when the stored domains are
  lower-cased, a query that is not in lower case matches none of them.
\<close>

theorem FindHosts_compares_exactly:
  assumes "hosts h = Some tbl" and "\<not> HasSuffix q ''.''"
  shows "FindHosts h (q @ ''.'') = FindHosts h q
       \<and> FindHosts h q = Inr (map ip (filter (\<lambda>e. domain e = q) tbl), None)
       \<and> ((\<forall>e\<in>set tbl. ToLower (domain e) = domain e) \<and> ToLower q \<noteq> q \<longrightarrow>
            FindHosts h q = Inr ([], None))"
proof -
  have q: "TrimSuffix q ''.'' = q"
    using assms(2) by (rule TrimSuffix_no_dot)
  have exact: "FindHosts h q = Inr (map ip (filter (\<lambda>e. domain e = q) tbl), None)"
    using FindHosts_installed [OF assms(1), of q] by (simp add: q)
  have dot: "FindHosts h (q @ ''.'') = FindHosts h q"
    using FindHosts_installed [OF assms(1), of "q @ ''.''"] exact
    by (simp add: TrimSuffix_dot_appended)
  have upper: "(\<forall>e\<in>set tbl. ToLower (domain e) = domain e) \<and> ToLower q \<noteq> q \<longrightarrow>
      FindHosts h q = Inr ([], None)"
  proof
    assume a: "(\<forall>e\<in>set tbl. ToLower (domain e) = domain e) \<and> ToLower q \<noteq> q"
    then have "\<forall>e\<in>set tbl. domain e \<noteq> q" by auto
    then have "filter (\<lambda>e. domain e = q) tbl = []"
      by (simp add: filter_empty_conv)
    with exact show "FindHosts h q = Inr ([], None)" by simp
  qed
  from dot exact upper show ?thesis by blast
qed

text \<open>
  The example table: the lower-case name with and without a separator, and the
  upper-case name with and without a separator.
\<close>

theorem FindHosts_compares_exactly_witness:
  "hosts example_hostsfile = Some example_table
   \<and> \<not> HasSuffix ''foo.example.com'' ''.''
   \<and> FindHosts example_hostsfile ''foo.example.com.'' = Inr ([[10, 0, 0, 5]], None)
   \<and> FindHosts example_hostsfile ''foo.example.com'' = Inr ([[10, 0, 0, 5]], None)
   \<and> \<not> HasSuffix ''FOO.EXAMPLE.COM'' ''.''
   \<and> ToLower ''FOO.EXAMPLE.COM'' \<noteq> ''FOO.EXAMPLE.COM''
   \<and> FindHosts example_hostsfile ''FOO.EXAMPLE.COM'' = Inr ([], None)
   \<and> FindHosts example_hostsfile ''FOO.EXAMPLE.COM.'' = Inr ([], None)"
proof -
  have h: "hosts example_hostsfile = Some example_table"
    by (simp add: example_hostsfile_def)
  have n1: "\<not> HasSuffix ''foo.example.com'' ''.''"
    by (simp add: HasSuffix_def)
  have n2: "\<not> HasSuffix ''FOO.EXAMPLE.COM'' ''.''"
    by (simp add: HasSuffix_def)
  have low: "\<forall>e\<in>set example_table. ToLower (domain e) = domain e"
    unfolding example_table_def by code_simp
  have up: "ToLower ''FOO.EXAMPLE.COM'' \<noteq> ''FOO.EXAMPLE.COM''"
    by code_simp
  from FindHosts_compares_exactly [OF h n1] FindHosts_compares_exactly [OF h n2] low up h n1 n2 show ?thesis
    by (simp add: example_table_def)
qed

text \<open>
  Claim C10. Normalisation strips at most one trailing separator: for a name that does
  not end in a separator, the lookup of the name followed by a separator is the
  lookup of the name; a name followed by two separators is reduced to the name
  followed by one, and so matches no entry of a table whose domains are free of a
  trailing separator.
\<close>

theorem FindHosts_strips_one_separator:
  assumes "hosts h = Some tbl"
  shows "(\<not> HasSuffix name ''.'' \<longrightarrow> FindHosts h (name @ ''.'') = FindHosts h name)
       \<and> TrimSuffix (name @ ''..'') ''.'' = name @ ''.''
       \<and> ((\<forall>e\<in>set tbl. \<not> HasSuffix (domain e) ''.'') \<longrightarrow>
            FindHosts h (name @ ''..'') = Inr ([], None))"
proof -
  have one: "\<not> HasSuffix name ''.'' \<longrightarrow> FindHosts h (name @ ''.'') = FindHosts h name"
    using FindHosts_installed [OF assms, of "name @ ''.''"] FindHosts_installed [OF assms, of name]
    by (simp add: TrimSuffix_dot_appended TrimSuffix_no_dot)
  have two: "TrimSuffix (name @ ''..'') ''.'' = name @ ''.''"
    using TrimSuffix_dot_appended [of "name @ ''.''"] by simp
  have none: "(\<forall>e\<in>set tbl. \<not> HasSuffix (domain e) ''.'') \<longrightarrow>
      FindHosts h (name @ ''..'') = Inr ([], None)"
  proof
    assume a: "\<forall>e\<in>set tbl. \<not> HasSuffix (domain e) ''.''"
    have "HasSuffix (name @ ''.'') ''.''"
      by (simp add: HasSuffix_def)
    with a have "\<forall>e\<in>set tbl. domain e \<noteq> name @ ''.''" by auto
    then have "filter (\<lambda>e. domain e = name @ ''.'') tbl = []"
      by (simp add: filter_empty_conv)
    with FindHosts_installed [OF assms, of "name @ ''..''"] two
    show "FindHosts h (name @ ''..'') = Inr ([], None)" by simp
  qed
  from one two none show ?thesis by blast
qed

text \<open>The example table, queried for \<^verbatim>\<open>localhost\<close> with none, one and two separators.\<close>

theorem FindHosts_strips_one_separator_witness:
  "hosts example_hostsfile = Some example_table
   \<and> \<not> HasSuffix ''localhost'' ''.''
   \<and> FindHosts example_hostsfile ''localhost.'' = Inr ([[127, 0, 0, 1]], None)
   \<and> FindHosts example_hostsfile ''localhost'' = Inr ([[127, 0, 0, 1]], None)
   \<and> TrimSuffix ''localhost..'' ''.'' = ''localhost.''
   \<and> FindHosts example_hostsfile ''localhost..'' = Inr ([], None)"
proof -
  have h: "hosts example_hostsfile = Some example_table"
    by (simp add: example_hostsfile_def)
  have n: "\<not> HasSuffix ''localhost'' ''.''"
    by (simp add: HasSuffix_def)
  have sepfree: "\<forall>e\<in>set example_table. \<not> HasSuffix (domain e) ''.''"
    by (simp add: example_table_def HasSuffix_def)
  have direct: "FindHosts example_hostsfile ''localhost'' = Inr ([[127, 0, 0, 1]], None)"
    by (simp add: FindHosts_def example_hostsfile_def example_table_def TrimSuffix_def HasSuffix_def)
  from FindHosts_strips_one_separator [OF h, of "''localhost''"] n sepfree direct h show ?thesis
    by simp
qed

subsection \<open>Reverse lookup\<close>

text \<open>
  Claim C5. On an instance with an installed table, \<^verbatim>\<open>FindReverse\<close> returns the domain
  of the first entry, in table order, whose reverse name is the query, as
  \<^verbatim>\<open>dns.Fqdn\<close> renders it; the entries after that one have no influence, whatever
  their addresses; with no such entry the result is the empty string; the returned
  error is always nil. This holds for every library.
\<close>

theorem FindReverse_first_match:
  assumes "hosts h = Some tbl"
  shows "FindReverse lib h name =
           Inr (case find (\<lambda>e. reverse_name lib e = name) tbl of
                  None \<Rightarrow> [] | Some e \<Rightarrow> Fqdn lib (domain e), None)
       \<and> (tbl = pre @ e # post \<and> (\<forall>x\<in>set pre. reverse_name lib x \<noteq> name)
            \<and> reverse_name lib e = name \<longrightarrow>
            FindReverse lib h name = Inr (Fqdn lib (domain e), None))
       \<and> ((\<forall>x\<in>set tbl. reverse_name lib x \<noteq> name) \<longrightarrow>
            FindReverse lib h name = Inr ([], None))"
proof -
  have scan: "FindReverse lib h name =
      Inr (case find (\<lambda>e. reverse_name lib e = name) tbl of
             None \<Rightarrow> [] | Some e \<Rightarrow> Fqdn lib (domain e), None)"
    using assms by (simp add: FindReverse_def FindReverse_loop_find)
  have first: "tbl = pre @ e # post \<and> (\<forall>x\<in>set pre. reverse_name lib x \<noteq> name)
      \<and> reverse_name lib e = name \<longrightarrow>
      FindReverse lib h name = Inr (Fqdn lib (domain e), None)"
  proof
    assume a: "tbl = pre @ e # post \<and> (\<forall>x\<in>set pre. reverse_name lib x \<noteq> name)
      \<and> reverse_name lib e = name"
    then have "find (\<lambda>e. reverse_name lib e = name) tbl = Some e"
      using find_first_match [of pre "\<lambda>e. reverse_name lib e = name" e post] by simp
    with scan show "FindReverse lib h name = Inr (Fqdn lib (domain e), None)" by simp
  qed
  have none: "(\<forall>x\<in>set tbl. reverse_name lib x \<noteq> name) \<longrightarrow>
      FindReverse lib h name = Inr ([], None)"
  proof
    assume "\<forall>x\<in>set tbl. reverse_name lib x \<noteq> name"
    then have "find (\<lambda>e. reverse_name lib e = name) tbl = None"
      using find_no_match [of tbl "\<lambda>e. reverse_name lib e = name"] by simp
    with scan show "FindReverse lib h name = Inr ([], None)" by simp
  qed
  from scan first none show ?thesis by blast
qed

text \<open>
  The example of the specification, with the IPv4 library: two entries have the
  address 10.0.0.5 and the first of them, \<^verbatim>\<open>foo.example.com\<close>, is returned with its
  separator; an address of no entry gives the empty string.
\<close>

theorem FindReverse_first_match_witness:
  "hosts example_hostsfile = Some example_table
   \<and> FindReverse ipv4_library example_hostsfile ''5.0.0.10.in-addr.arpa.''
       = Inr (''foo.example.com.'', None)
   \<and> FindReverse ipv4_library example_hostsfile ''9.9.9.9.in-addr.arpa.'' = Inr ([], None)"
proof -
  have h: "hosts example_hostsfile = Some example_table"
    by (simp add: example_hostsfile_def)
  have split: "example_table =
      [\<lparr>domain = ''localhost'', ip = [127, 0, 0, 1]\<rparr>]
      @ \<lparr>domain = ''foo.example.com'', ip = [10, 0, 0, 5]\<rparr>
      # [\<lparr>domain = ''bar.example.com'', ip = [10, 0, 0, 5]\<rparr>]"
    by (simp add: example_table_def)
  have r1: "reverse_name ipv4_library \<lparr>domain = ''localhost'', ip = [127, 0, 0, 1]\<rparr>
      = ''1.0.0.127.in-addr.arpa.''"
    by code_simp
  have r2: "reverse_name ipv4_library \<lparr>domain = ''foo.example.com'', ip = [10, 0, 0, 5]\<rparr>
      = ''5.0.0.10.in-addr.arpa.''"
    by code_simp
  have r3: "reverse_name ipv4_library \<lparr>domain = ''bar.example.com'', ip = [10, 0, 0, 5]\<rparr>
      = ''5.0.0.10.in-addr.arpa.''"
    by code_simp
  have f: "Fqdn ipv4_library ''foo.example.com'' = ''foo.example.com.''"
    by code_simp
  have hit: "FindReverse ipv4_library example_hostsfile ''5.0.0.10.in-addr.arpa.''
      = Inr (''foo.example.com.'', None)"
    using FindReverse_first_match [OF h, of ipv4_library "''5.0.0.10.in-addr.arpa.''"
        "[\<lparr>domain = ''localhost'', ip = [127, 0, 0, 1]\<rparr>]"
        "\<lparr>domain = ''foo.example.com'', ip = [10, 0, 0, 5]\<rparr>"
        "[\<lparr>domain = ''bar.example.com'', ip = [10, 0, 0, 5]\<rparr>]",
        THEN conjunct2, THEN conjunct1] split r1 r2 f
    by simp
  have miss: "FindReverse ipv4_library example_hostsfile ''9.9.9.9.in-addr.arpa.'' = Inr ([], None)"
    using FindReverse_first_match [OF h, of ipv4_library "''9.9.9.9.in-addr.arpa.''", THEN conjunct2, THEN conjunct2]
      r1 r2 r3
    by (simp add: example_table_def)
  from h hit miss show ?thesis by simp
qed


section \<open>Properties of construction\<close>

lemma loadHostEntries_failure:
  "ReadFile fs (file_path (file' h)) = Inl err \<Longrightarrow>
   loadHostEntries nh fs h = ((Some err, h), [CallReadFile (file_path (file' h))])"
  by (simp add: loadHostEntries_def)

lemma loadHostEntries_success:
  "ReadFile fs (file_path (file' h)) = Inr data \<Longrightarrow>
   loadHostEntries nh fs h =
     ((None, h\<lparr>hosts := Some (nh data)\<rparr>),
      [CallReadFile (file_path (file' h)), CallNewHostlist data])"
  by (simp add: loadHostEntries_def)

lemma NewHostsfile_read_failure:
  "pth \<noteq> [] \<Longrightarrow> ReadFile fs pth = Inl err \<Longrightarrow>
   NewHostsfile nh fs pth cfg = (Inl (Returned err), [CallReadFile pth])"
  by (simp add: NewHostsfile_def loadHostEntries_def)

lemma NewHostsfile_read_success:
  "pth \<noteq> [] \<Longrightarrow> ReadFile fs pth = Inr data \<Longrightarrow>
   fst (NewHostsfile nh fs pth cfg) \<noteq> Inl (Returned err)"
  by (simp add: NewHostsfile_def loadHostEntries_def Let_def split: option.splits)

lemma NewHostsfile_read_success_instance:
  "pth \<noteq> [] \<Longrightarrow> ReadFile fs pth = Inr data \<Longrightarrow>
   \<exists>h evs. NewHostsfile nh fs pth (Some c) = (Inr h, evs) \<and> hosts h = Some (nh data)"
  by (simp add: NewHostsfile_def loadHostEntries_def Let_def)

lemma NewHostsfile_empty:
  "NewHostsfile nh fs [] cfg =
     (Inr \<lparr>config = cfg, hosts = Some [],
           file' = \<lparr>file_size = 0, file_path = [], file_mtime = zero_Time\<rparr>\<rparr>, [])"
  by (simp add: NewHostsfile_def)

text \<open>
  Claim C6. With a non-empty path, \<^verbatim>\<open>NewHostsfile\<close> returns an error exactly when the
  read of the file fails. It then returns that error and no instance, and the read
  is all it has done: the parser has not run, so no table exists, and no goroutine
  has been started. When the read succeeds and a configuration is given, an instance
  with the parsed table is returned.
\<close>

theorem NewHostsfile_fails_iff_read_fails:
  assumes "pth \<noteq> []"
  shows "((\<exists>err. fst (NewHostsfile nh fs pth cfg) = Inl (Returned err))
            = (\<exists>err. ReadFile fs pth = Inl err))
       \<and> (\<forall>err. ReadFile fs pth = Inl err \<longrightarrow>
            NewHostsfile nh fs pth cfg = (Inl (Returned err), [CallReadFile pth]))
       \<and> (\<forall>data c. ReadFile fs pth = Inr data \<and> cfg = Some c \<longrightarrow>
            (\<exists>h evs. NewHostsfile nh fs pth cfg = (Inr h, evs) \<and> hosts h = Some (nh data)))"
proof (cases "ReadFile fs pth")
  case (Inl err)
  with assms show ?thesis
    by (auto simp: NewHostsfile_read_failure)
next
  case (Inr data)
  with assms show ?thesis
    using NewHostsfile_read_success_instance [of pth fs data nh]
    by (auto simp: NewHostsfile_read_success)
qed

text \<open>Construction over a file system without the file, and over the example file.\<close>

theorem NewHostsfile_fails_iff_read_fails_witness:
  "''/etc/hosts'' \<noteq> []
   \<and> ReadFile missing_fs ''/etc/hosts'' = Inl (Error ''no such file or directory'')
   \<and> NewHostsfile example_newHostlist missing_fs ''/etc/hosts'' (Some example_config)
       = (Inl (Returned (Error ''no such file or directory'')), [CallReadFile ''/etc/hosts''])
   \<and> ReadFile example_fs ''/etc/hosts'' = Inr example_data
   \<and> (\<exists>h evs. NewHostsfile example_newHostlist example_fs ''/etc/hosts'' (Some example_config)
         = (Inr h, evs) \<and> hosts h = Some example_table)"
proof -
  have p: "''/etc/hosts'' \<noteq> []" by simp
  have r: "ReadFile missing_fs ''/etc/hosts'' = Inl (Error ''no such file or directory'')"
    by (simp add: missing_fs_def)
  have r': "ReadFile example_fs ''/etc/hosts'' = Inr example_data"
    by (simp add: example_fs_def)
  have t: "example_newHostlist example_data = example_table"
    by (simp add: example_newHostlist_def)
  from NewHostsfile_fails_iff_read_fails [OF p, of example_newHostlist missing_fs "Some example_config"]
    NewHostsfile_fails_iff_read_fails [OF p, of example_newHostlist example_fs "Some example_config"] r r' p t
  show ?thesis by simp
qed

text \<open>
  Claim C7. With the empty path, \<^verbatim>\<open>NewHostsfile\<close> returns an instance whatever the
  configuration (a nil configuration included) and the file system. Its table is
  empty, so every forward lookup gives the empty sequence and every reverse lookup
  the empty string. No goroutine is started (there is no event at all), and
  \<^verbatim>\<open>monitorHostEntries\<close> on this instance returns before its loop, whatever the
  interval.
\<close>

theorem NewHostsfile_empty_path:
  "\<exists>h. NewHostsfile nh fs [] cfg = (Inr h, [])
       \<and> hosts h = Some []
       \<and> (\<forall>name. FindHosts h name = Inr ([], None))
       \<and> (\<forall>lib name. FindReverse lib h name = Inr ([], None))
       \<and> (\<forall>ticks poll. monitorHostEntries nh ticks h poll = (Inr (h, file' h), []))"
  by (simp add: NewHostsfile_empty FindHosts_def FindReverse_def monitorHostEntries_def Let_def)

text \<open>The empty path with a nil configuration and with polling configured.\<close>

theorem NewHostsfile_empty_path_witness:
  "fst (NewHostsfile example_newHostlist example_fs [] None) \<noteq> Inl (Panicked NilPointerDereference)
   \<and> snd (NewHostsfile example_newHostlist example_fs [] None) = []
   \<and> snd (NewHostsfile example_newHostlist example_fs [] (Some \<lparr>Poll = 5, Verbose = True\<rparr>)) = []"
  using NewHostsfile_empty_path [of example_newHostlist example_fs None]
    NewHostsfile_empty_path [of example_newHostlist example_fs "Some \<lparr>Poll = 5, Verbose = True\<rparr>"]
  by auto

section \<open>Properties of the poll loop\<close>

lemma NewHostsfile_instance:
  assumes "pth \<noteq> []" and "NewHostsfile nh fs pth cfg = (Inr h0, evs0)"
  shows "file' h0 = \<lparr>file_size = 0, file_path = pth, file_mtime = zero_Time\<rparr>
       \<and> config h0 = cfg \<and> cfg \<noteq> None
       \<and> (\<exists>data. ReadFile fs pth = Inr data \<and> hosts h0 = Some (nh data))"
  using assms
  by (auto simp: NewHostsfile_def loadHostEntries_def Let_def
      split: sum.splits option.splits if_splits)

lemma monitor_tick_unchanged:
  "hostsFileMetadata fs (file_path hf) = Inr (file_mtime hf, file_size hf) \<Longrightarrow>
   monitor_tick nh fs (h, hf) = (Inr (h, hf), [])"
  by (simp add: monitor_tick_def Equal_def)

lemma monitor_loop_unchanged:
  "hostsFileMetadata fs (file_path hf) = Inr (file_mtime hf, file_size hf) \<Longrightarrow>
   monitor_loop nh (replicate n fs) (h, hf) = (Inr (h, hf), [])"
  by (induction n) (simp_all add: monitor_tick_unchanged)

lemma monitor_tick_reload:
  assumes "hostsFileMetadata fs (file_path hf) = Inr (m, s)"
    and "(m, s) \<noteq> (file_mtime hf, file_size hf)"
    and "ReadFile fs (file_path (file' h)) = Inr data"
    and "config h = Some c"
  shows "monitor_tick nh fs (h, hf) =
     (Inr (h\<lparr>hosts := Some (nh data), file' := (file' h)\<lparr>file_mtime := m, file_size := s\<rparr>\<rparr>,
           (file' h)\<lparr>file_mtime := m, file_size := s\<rparr>),
      CallReadFile (file_path (file' h)) # CallNewHostlist data
        # (if Verbose c then [LogReloaded] else []))"
  using assms by (auto simp: monitor_tick_def Equal_def loadHostEntries_def Let_def)

lemma monitor_tick_failed_reload:
  assumes "hostsFileMetadata fs (file_path hf) = Inr (m, s)"
    and "(m, s) \<noteq> (file_mtime hf, file_size hf)"
    and "ReadFile fs (file_path (file' h)) = Inl err"
    and "config h = Some c"
  shows "monitor_tick nh fs (h, hf) =
     (Inr (h\<lparr>file' := (file' h)\<lparr>file_mtime := m, file_size := s\<rparr>\<rparr>,
           (file' h)\<lparr>file_mtime := m, file_size := s\<rparr>),
      CallReadFile (file_path (file' h)) # LogErrorOpening err
        # (if Verbose c then [LogReloaded] else []))"
  using assms by (auto simp: monitor_tick_def Equal_def loadHostEntries_def Let_def)

text \<open>
  Claim C8. A tick on which \<^verbatim>\<open>hostsFileMetadata\<close> fails leaves the instance, its table
  and the baseline as they are; the failure is logged and nothing is read or parsed;
  the loop goes on with the next tick from the same state.
\<close>

theorem monitor_tick_stat_failure:
  assumes "hostsFileMetadata fs (file_path hf) = Inl err"
  shows "monitor_tick nh fs (h, hf) = (Inr (h, hf), [LogErrorStating err])
       \<and> monitor_loop nh (fs # ticks) (h, hf) =
           (fst (monitor_loop nh ticks (h, hf)),
            LogErrorStating err # snd (monitor_loop nh ticks (h, hf)))"
proof -
  have tick: "monitor_tick nh fs (h, hf) = (Inr (h, hf), [LogErrorStating err])"
    using assms by (simp add: monitor_tick_def)
  then have "monitor_loop nh (fs # ticks) (h, hf) =
      (fst (monitor_loop nh ticks (h, hf)),
       LogErrorStating err # snd (monitor_loop nh ticks (h, hf)))"
    by (simp add: split_beta)
  with tick show ?thesis by simp
qed

text \<open>Two ticks over a file system without the file.\<close>

theorem monitor_tick_stat_failure_witness:
  "hostsFileMetadata missing_fs (file_path (file' example_hostsfile))
     = Inl (Error ''no such file or directory'')
   \<and> monitor_tick example_newHostlist missing_fs (example_hostsfile, file' example_hostsfile)
     = (Inr (example_hostsfile, file' example_hostsfile),
        [LogErrorStating (Error ''no such file or directory'')])
   \<and> monitor_loop example_newHostlist [missing_fs, missing_fs]
        (example_hostsfile, file' example_hostsfile)
     = (Inr (example_hostsfile, file' example_hostsfile),
        [LogErrorStating (Error ''no such file or directory''),
         LogErrorStating (Error ''no such file or directory'')])"
proof -
  have s: "hostsFileMetadata missing_fs (file_path (file' example_hostsfile))
      = Inl (Error ''no such file or directory'')"
    by (simp add: missing_fs_def)
  note t = monitor_tick_stat_failure [OF s, of example_newHostlist example_hostsfile]
  from t [of "[missing_fs]"] t [of "[]"] s show ?thesis
    by simp
qed

text \<open>
  Claim C2 as stated has the baseline captured at the initial load. \<^verbatim>\<open>NewHostsfile\<close>
  never asks for the modification time or the size of the file: the instance it
  returns for the example file has the zero values as its baseline, and the first
  tick over the unchanged file reads and parses the file again.
\<close>

theorem monitor_first_tick_reloads_counterexample:
  "fst (NewHostsfile example_newHostlist example_fs ''/etc/hosts'' (Some example_config))
     = Inr example_hostsfile
   \<and> hostsFileMetadata example_fs ''/etc/hosts'' = Inr (63000000000, 61)
   \<and> file_mtime (file' example_hostsfile) = 0
   \<and> file_size (file' example_hostsfile) = 0
   \<and> snd (monitorHostEntries example_newHostlist [example_fs] example_hostsfile 5)
     = [CallReadFile ''/etc/hosts'', CallNewHostlist example_data]"
  by (simp add: NewHostsfile_def loadHostEntries_def example_fs_def example_hostsfile_def
      example_config_def example_newHostlist_def monitorHostEntries_def monitor_tick_def
      zero_Time_def Equal_def Let_def)

text \<open>
  Claim C2, amended. After construction with a non-empty path the baseline is the
  zero modification time and the size 0. On every tick on which the modification
  time and the size of the file both equal the baseline of the loop, nothing is read
  or parsed and the state stays as it is. The first tick over a readable file whose
  modification time and size are not both zero reads and parses the file once and
  takes the observed values as the baseline; the ticks after it over the unchanged
  file do nothing.
\<close>

theorem monitor_baseline_from_poll:
  assumes "pth \<noteq> []" and "NewHostsfile nh fs0 pth cfg = (Inr h0, evs0)"
  shows "file' h0 = \<lparr>file_size = 0, file_path = pth, file_mtime = zero_Time\<rparr>
       \<and> (hostsFileMetadata fs (file_path hf) = Inr (file_mtime hf, file_size hf) \<longrightarrow>
            monitor_tick nh fs (h, hf) = (Inr (h, hf), []))
       \<and> (hostsFileMetadata fs pth = Inr (m, s) \<and> (m, s) \<noteq> (zero_Time, 0)
            \<and> ReadFile fs pth = Inr data \<and> cfg = Some c \<longrightarrow>
            (\<exists>h1. monitorHostEntries nh (fs # replicate n fs) h0 poll =
                    (Inr (h1, file' h1),
                     CallReadFile pth # CallNewHostlist data
                       # (if Verbose c then [LogReloaded] else []))
                 \<and> hosts h1 = Some (nh data)
                 \<and> file_mtime (file' h1) = m \<and> file_size (file' h1) = s))"
proof -
  note inst = NewHostsfile_instance [OF assms]
  from inst have base: "file' h0 = \<lparr>file_size = 0, file_path = pth, file_mtime = zero_Time\<rparr>"
    by simp
  have idle: "hostsFileMetadata fs (file_path hf) = Inr (file_mtime hf, file_size hf) \<longrightarrow>
      monitor_tick nh fs (h, hf) = (Inr (h, hf), [])"
    by (simp add: monitor_tick_unchanged)
  have first: "hostsFileMetadata fs pth = Inr (m, s) \<and> (m, s) \<noteq> (zero_Time, 0)
      \<and> ReadFile fs pth = Inr data \<and> cfg = Some c \<longrightarrow>
      (\<exists>h1. monitorHostEntries nh (fs # replicate n fs) h0 poll =
              (Inr (h1, file' h1),
               CallReadFile pth # CallNewHostlist data
                 # (if Verbose c then [LogReloaded] else []))
           \<and> hosts h1 = Some (nh data)
           \<and> file_mtime (file' h1) = m \<and> file_size (file' h1) = s)"
  proof
    assume a: "hostsFileMetadata fs pth = Inr (m, s) \<and> (m, s) \<noteq> (zero_Time, 0)
      \<and> ReadFile fs pth = Inr data \<and> cfg = Some c"
    define h1 where
      "h1 = h0\<lparr>hosts := Some (nh data), file' := (file' h0)\<lparr>file_mtime := m, file_size := s\<rparr>\<rparr>"
    have f1: "file' h1 = \<lparr>file_size = s, file_path = pth, file_mtime = m\<rparr>"
      by (simp add: h1_def base)
    have c0: "config h0 = Some c"
      using inst a by simp
    have tick: "monitor_tick nh fs (h0, file' h0) =
        (Inr (h1, file' h1),
         CallReadFile pth # CallNewHostlist data # (if Verbose c then [LogReloaded] else []))"
      using monitor_tick_reload [of fs "file' h0" m s h0 data c nh] a c0
      by (simp add: base h1_def)
    have p0: "file_path (file' h0) = pth"
      by (simp add: base)
    have rest: "monitor_loop nh (replicate n fs) (h1, file' h1) = (Inr (h1, file' h1), [])"
      using a by (intro monitor_loop_unchanged) (simp add: f1)
    have "monitorHostEntries nh (fs # replicate n fs) h0 poll =
        (Inr (h1, file' h1),
         CallReadFile pth # CallNewHostlist data # (if Verbose c then [LogReloaded] else []))"
      using assms(1) p0 by (simp add: monitorHostEntries_def Let_def tick rest)
    moreover have "hosts h1 = Some (nh data)"
      by (simp add: h1_def)
    moreover have "file_mtime (file' h1) = m \<and> file_size (file' h1) = s"
      by (simp add: f1)
    ultimately show "\<exists>h1. monitorHostEntries nh (fs # replicate n fs) h0 poll =
              (Inr (h1, file' h1),
               CallReadFile pth # CallNewHostlist data
                 # (if Verbose c then [LogReloaded] else []))
           \<and> hosts h1 = Some (nh data)
           \<and> file_mtime (file' h1) = m \<and> file_size (file' h1) = s"
      by blast
  qed
  from base idle first show ?thesis by blast
qed

text \<open>
  Construction over the example file; an idle tick of the instance whose baseline is
  the file's modification time and size; and three ticks after construction, of
  which only the first reads the file.
\<close>

theorem monitor_baseline_from_poll_witness:
  "''/etc/hosts'' \<noteq> []
   \<and> NewHostsfile example_newHostlist example_fs ''/etc/hosts'' (Some example_config)
       = (Inr example_hostsfile,
          [CallReadFile ''/etc/hosts'', CallNewHostlist example_data, GoMonitorHostEntries 5])
   \<and> file' example_hostsfile
       = \<lparr>file_size = 0, file_path = ''/etc/hosts'', file_mtime = zero_Time\<rparr>
   \<and> monitor_tick example_newHostlist example_fs (polled_hostsfile, file' polled_hostsfile)
       = (Inr (polled_hostsfile, file' polled_hostsfile), [])
   \<and> snd (monitorHostEntries example_newHostlist [example_fs, example_fs, example_fs]
            example_hostsfile 5)
       = [CallReadFile ''/etc/hosts'', CallNewHostlist example_data]"
proof -
  have p: "''/etc/hosts'' \<noteq> []" by simp
  have new: "NewHostsfile example_newHostlist example_fs ''/etc/hosts'' (Some example_config)
      = (Inr example_hostsfile,
         [CallReadFile ''/etc/hosts'', CallNewHostlist example_data, GoMonitorHostEntries 5])"
    by (simp add: NewHostsfile_def loadHostEntries_def example_fs_def example_hostsfile_def
        example_config_def example_newHostlist_def Let_def)
  have stat: "hostsFileMetadata example_fs (file_path (file' polled_hostsfile))
      = Inr (file_mtime (file' polled_hostsfile), file_size (file' polled_hostsfile))"
    by (simp add: example_fs_def polled_hostsfile_def)
  have stat0: "hostsFileMetadata example_fs ''/etc/hosts'' = Inr (63000000000, 61)"
    by (simp add: example_fs_def)
  have changed: "(63000000000 :: int, 61 :: 64 word) \<noteq> (zero_Time, 0)"
    by (simp add: zero_Time_def)
  have read: "ReadFile example_fs ''/etc/hosts'' = Inr example_data"
    by (simp add: example_fs_def)
  have quiet: "\<not> Verbose example_config"
    by (simp add: example_config_def)
  note t = monitor_baseline_from_poll [OF p new, of example_fs "file' polled_hostsfile"
      polled_hostsfile 63000000000 61 example_data example_config "Suc (Suc 0)" 5]
  from t stat have idle:
    "monitor_tick example_newHostlist example_fs (polled_hostsfile, file' polled_hostsfile)
      = (Inr (polled_hostsfile, file' polled_hostsfile), [])"
    by blast
  from t stat0 changed read quiet have
    "\<exists>h1. monitorHostEntries example_newHostlist (example_fs # replicate (Suc (Suc 0)) example_fs)
            example_hostsfile 5
          = (Inr (h1, file' h1), [CallReadFile ''/etc/hosts'', CallNewHostlist example_data])"
    by auto
  then have run: "snd (monitorHostEntries example_newHostlist [example_fs, example_fs, example_fs]
      example_hostsfile 5) = [CallReadFile ''/etc/hosts'', CallNewHostlist example_data]"
    by auto
  from t have "file' example_hostsfile
      = \<lparr>file_size = 0, file_path = ''/etc/hosts'', file_mtime = zero_Time\<rparr>"
    by blast
  with p new idle run show ?thesis by blast
qed

text \<open>
  Claim C3 asks that a tick whose reload fails keeps the table and the baseline. The
  loop keeps the table but not the baseline: after logging the failure it goes on
  to the assignments of \<^verbatim>\<open>h.file.mtime\<close> and \<^verbatim>\<open>h.file.size\<close> (and, with logging enabled,
  reports a reload). On the instance polled over the example file, a tick that finds
  the file changed and unreadable moves the baseline to the new values; on the next
  tick the file is readable again, its modification time and size equal the moved
  baseline, and it is not read.
\<close>

theorem monitor_failed_reload_moves_baseline:
  "monitor_tick example_newHostlist unreadable_fs (polled_hostsfile, file' polled_hostsfile)
     = (Inr (polled_hostsfile\<lparr>file' := moved_baseline\<rparr>, moved_baseline),
        [CallReadFile ''/etc/hosts'', LogErrorOpening (Error ''permission denied''), LogReloaded])
   \<and> file' polled_hostsfile \<noteq> moved_baseline
   \<and> hosts (polled_hostsfile\<lparr>file' := moved_baseline\<rparr>) = hosts polled_hostsfile
   \<and> ReadFile readable_again_fs ''/etc/hosts'' = Inr example_data
   \<and> monitor_tick example_newHostlist readable_again_fs
       (polled_hostsfile\<lparr>file' := moved_baseline\<rparr>, moved_baseline)
     = (Inr (polled_hostsfile\<lparr>file' := moved_baseline\<rparr>, moved_baseline), [])"
  by (simp add: monitor_tick_def loadHostEntries_def unreadable_fs_def readable_again_fs_def
      example_fs_def polled_hostsfile_def moved_baseline_def Equal_def Let_def)

end
